theory Spec2Isabelle
  imports Complex_Main
begin

section \<open>Numbers and vectors\<close>

text \<open>
  A JavaScript number is modelled as a real: the model has no NaN, no infinities and
  no rounding.  A number used as a condition (\<^verbatim>\<open>if (this.maxSpeed)\<close>) is true
  exactly when it is not zero.  Division by zero, which yields an infinity or NaN in
  JavaScript, is outside the model: each theorem below that settles a claim and passes
  through a division assumes the divisor is not zero or evaluates at one that is not.
\<close>

datatype vector = Vector (vec_x: real) (vec_y: real)

text \<open>
  Modelled from the spec: the Vector class (\<^verbatim>\<open>exports.Vector\<close>) is not among the
  sources.  Section 4.1 of the specification gives its operations: \<^verbatim>\<open>add\<close>,
  \<^verbatim>\<open>sub\<close>, \<^verbatim>\<open>mult(scalar)\<close>, \<^verbatim>\<open>div(scalar)\<close>, \<^verbatim>\<open>mag()\<close>,
  \<^verbatim>\<open>normalize()\<close> (no-op when the magnitude is 0), \<^verbatim>\<open>limit(max)\<close> (clamps the
  magnitude to at most max, preserving direction), \<^verbatim>\<open>limitLow(min)\<close> (scales up to
  at least min), \<^verbatim>\<open>distance(other)\<close> and the static subtract-to-new.  In the source
  the mutating operations change the receiver; here each returns the receiver's new
  value, and the caller stores it back where the source's receiver lives.
\<close>

definition add_v :: "vector \<Rightarrow> vector \<Rightarrow> vector" where
  "add_v v u = Vector (vec_x v + vec_x u) (vec_y v + vec_y u)"

definition sub_v :: "vector \<Rightarrow> vector \<Rightarrow> vector" where
  "sub_v v u = Vector (vec_x v - vec_x u) (vec_y v - vec_y u)"

definition mult_v :: "vector \<Rightarrow> real \<Rightarrow> vector" where
  "mult_v v n = Vector (vec_x v * n) (vec_y v * n)"

definition div_v :: "vector \<Rightarrow> real \<Rightarrow> vector" where
  "div_v v n = Vector (vec_x v / n) (vec_y v / n)"

definition mag :: "vector \<Rightarrow> real" where
  "mag v = sqrt (vec_x v * vec_x v + vec_y v * vec_y v)"

definition normalize_v :: "vector \<Rightarrow> vector" where
  "normalize_v v = (let m = mag v in if m \<noteq> 0 then div_v v m else v)"

definition limit :: "vector \<Rightarrow> real \<Rightarrow> vector" where
  "limit v high = (if mag v > high then mult_v (normalize_v v) high else v)"

definition limitLow :: "vector \<Rightarrow> real \<Rightarrow> vector" where
  "limitLow v low = (if mag v < low then mult_v (normalize_v v) low else v)"

definition distance :: "vector \<Rightarrow> vector \<Rightarrow> real" where
  "distance v u = mag (sub_v v u)"

definition VectorSub :: "vector \<Rightarrow> vector \<Rightarrow> vector" where
  "VectorSub v1 v2 = Vector (vec_x v1 - vec_x v2) (vec_y v1 - vec_y v2)"

text \<open>
  Modelled from the spec: the helpers of \<^verbatim>\<open>exports.Utils\<close> are not among the
  sources.  \<^verbatim>\<open>clone\<close> copies a vector (a value here, so the identity),
  \<^verbatim>\<open>constrain\<close> clamps a number to an interval (section 4.3), \<^verbatim>\<open>map\<close> is the
  linear ramp of section 4.2, and the two angle conversions are the usual ones.
\<close>

definition clone :: "vector \<Rightarrow> vector" where
  "clone v = Vector (vec_x v) (vec_y v)"

definition constrain :: "real \<Rightarrow> real \<Rightarrow> real \<Rightarrow> real" where
  "constrain val low high = (if val > high then high else if val < low then low else val)"

definition map_range :: "real \<Rightarrow> real \<Rightarrow> real \<Rightarrow> real \<Rightarrow> real \<Rightarrow> real" where
  "map_range val min1 max1 min2 max2 =
     (val - min1) / (max1 - min1) * (max2 - min2) + min2"

definition degreesToRadians :: "real \<Rightarrow> real" where
  "degreesToRadians d = d * pi / 180"

definition radiansToDegrees :: "real \<Rightarrow> real" where
  "radiansToDegrees r = r * 180 / pi"

text \<open>\<^verbatim>\<open>Math.atan2(y, x)\<close>: the angle of the point (x, y), in (-pi, pi].\<close>

definition atan2 :: "real \<Rightarrow> real \<Rightarrow> real" where
  "atan2 b a =
     (if a > 0 then arctan (b / a)
      else if a < 0 then (if b \<ge> 0 then arctan (b / a) + pi else arctan (b / a) - pi)
      else if b > 0 then pi / 2
      else if b < 0 then - (pi / 2)
      else 0)"

section \<open>The data model\<close>

text \<open>
  Modelled from the spec: the Element base class, the World and the Sensor are not
  among the sources; their fields are the ones the Agent's code reads and section 6
  of the specification lists.  An \<open>element\<close> is what the Agent's code reads of any
  member of a registry, of a seek target and of a parent.  Agents extend Element in
  the source, and the record of an agent extends the record of an element here.
\<close>

record element =
  id :: nat
  className :: string
  location :: vector
  velocity :: vector
  width :: real
  height :: real
  angle :: real
  mass :: real

text \<open>Liquids carry a drag coefficient, attractors and repellers a constant G.\<close>

record source = element +
  c :: real
  G :: real

record sensor =
  sensorOffsetDistance :: real
  sensorOffsetAngle :: real
  sensorLocation :: vector
  activated :: bool

record world =
  worldWidth :: real
  worldHeight :: real
  gravity :: vector
  wind :: vector
  worldC :: "real option"
  worldLocation :: vector

text \<open>
  The flow field: a resolution and a mapping from a column index to a mapping from
  a row index to a vector.  A missing column or row is \<open>None\<close> (\<^verbatim>\<open>undefined\<close>).
\<close>

record flow_field =
  resolution :: real
  field :: "int \<Rightarrow> (int \<Rightarrow> vector option) option"

record agent = element +
  acceleration :: vector
  maxSpeed :: real
  minSpeed :: real
  motorSpeed :: real
  lifespan :: real
  offsetDistance :: real
  offsetAngle :: real
  pointToDirection :: bool
  followMouse :: bool
  seekTarget :: "element option"
  isStatic :: bool
  isPressed :: bool
  checkEdges :: bool
  wrapEdges :: bool
  avoidEdges :: bool
  avoidEdgesStrength :: real
  bounciness :: real
  maxSteeringForce :: real
  flocking :: bool
  desiredSeparation :: real
  separateStrength :: real
  alignStrength :: real
  cohesionStrength :: real
  flowField :: "flow_field option"
  controlCamera :: bool
  parent :: "element option"
  sensors :: "sensor list"
  applyForceVector :: vector
  followTargetVector :: vector
  followDesiredVelocity :: vector
  separateSumForceVector :: vector
  alignSumForceVector :: vector
  cohesionSumForceVector :: vector
  zeroForceVector :: vector
  cameraDiffVector :: vector
  checkCameraEdgesVector :: vector
  locationIsParents :: bool

text \<open>
  The registries and the mouse, which the source reads from \<^verbatim>\<open>exports\<close>, are passed
  as a read-only snapshot for the frame (section 9 of the specification).  A sensor's
  \<^verbatim>\<open>getActivationForce\<close> is defined outside the sources; it is a parameter here.
\<close>

text \<open>
  Every Vector of an agent is an object of its own, with one exception: with an
  offset distance of zero, parenting makes \<^verbatim>\<open>this.location\<close> the parent's location
  object itself (\<^verbatim>\<open>this.location = this.parent.location\<close>).  The flag
  \<open>locationIsParents\<close> records that the two are one object; the fields \<open>location\<close>
  of the agent and of its parent then hold the same value, and every write to the
  agent's location is a write to the parent's location too.
\<close>

definition writeLocation :: "vector \<Rightarrow> agent \<Rightarrow> agent" where
  "writeLocation v a =
     (if locationIsParents a then
        (case parent a of
           None \<Rightarrow> a\<lparr>location := v\<rparr>
         | Some p \<Rightarrow> a\<lparr>location := v, parent := Some (p\<lparr>location := v\<rparr>)\<rparr>)
      else a\<lparr>location := v\<rparr>)"

record env =
  liquids :: "source list"
  repellers :: "source list"
  attractors :: "source list"
  elements :: "element list"
  mouseLoc :: vector
  getActivationForce :: "sensor \<Rightarrow> agent \<Rightarrow> vector"

text \<open>
  The two hooks are functions applied to the agent (\<^verbatim>\<open>this.beforeStep.apply(this)\<close>).
  A record cannot hold a function on itself, so the hooks of an agent are kept beside
  it; \<open>None\<close> is the source's \<^verbatim>\<open>undefined\<close>.
\<close>

record callbacks =
  beforeStep :: "(agent \<Rightarrow> agent) option"
  afterStep :: "(agent \<Rightarrow> agent) option"

section \<open>Forces\<close>

text \<open>
  \<^verbatim>\<open>applyForce\<close> copies the force into the buffer \<^verbatim>\<open>applyForceVector\<close> one
  component at a time, divides the buffer by the mass and adds it to the acceleration.
\<close>

definition applyForce :: "vector \<Rightarrow> agent \<Rightarrow> agent" where
  "applyForce force a =
     (let a1 = a\<lparr>applyForceVector := Vector (vec_x force) (vec_y (applyForceVector a))\<rparr>;
          a2 = a1\<lparr>applyForceVector := Vector (vec_x (applyForceVector a1)) (vec_y force)\<rparr>;
          a3 = a2\<lparr>applyForceVector := div_v (applyForceVector a2) (mass a2)\<rparr>
      in a3\<lparr>acceleration := add_v (acceleration a3) (applyForceVector a3)\<rparr>)"

text \<open>\<^verbatim>\<open>seek(target)\<close> reads \<^verbatim>\<open>target.location\<close> only, which is the argument here.\<close>

definition seek :: "world \<Rightarrow> vector \<Rightarrow> agent \<Rightarrow> vector" where
  "seek w targetLocation a =
     (let desiredVelocity = VectorSub targetLocation (location a);
          distanceToTarget = mag desiredVelocity;
          desiredVelocity = normalize_v desiredVelocity;
          desiredVelocity =
            (if distanceToTarget < worldWidth w / 2
             then mult_v desiredVelocity
                    (map_range distanceToTarget 0 (worldWidth w / 2) 0 (maxSpeed a))
             else mult_v desiredVelocity (maxSpeed a));
          desiredVelocity = sub_v desiredVelocity (velocity a)
      in limit desiredVelocity (maxSteeringForce a))"

text \<open>
  \<^verbatim>\<open>follow(target)\<close> works in the buffer \<^verbatim>\<open>followDesiredVelocity\<close> and returns that
  buffer: the caller reads the returned force from \<open>followDesiredVelocity\<close> of the result.
\<close>

definition follow :: "vector \<Rightarrow> agent \<Rightarrow> agent" where
  "follow targetLocation a =
     (let a1 = a\<lparr>followDesiredVelocity := Vector (vec_x targetLocation) (vec_y targetLocation)\<rparr>;
          a2 = a1\<lparr>followDesiredVelocity := mult_v (followDesiredVelocity a1) (maxSpeed a1)\<rparr>;
          a3 = a2\<lparr>followDesiredVelocity := sub_v (followDesiredVelocity a2) (velocity a2)\<rparr>
      in a3\<lparr>followDesiredVelocity := limit (followDesiredVelocity a3) (maxSteeringForce a3)\<rparr>)"

definition flee :: "vector \<Rightarrow> agent \<Rightarrow> vector" where
  "flee targetLocation a =
     (let desiredVelocity = VectorSub targetLocation (location a);
          desiredVelocity = normalize_v desiredVelocity
      in mult_v desiredVelocity (- maxSpeed a))"

definition drag :: "source \<Rightarrow> agent \<Rightarrow> vector" where
  "drag target a =
     (let speed = mag (velocity a);
          dragMagnitude = -1 * c target * speed * speed;
          drag = clone (velocity a);
          drag = normalize_v drag
      in mult_v drag dragMagnitude)"

definition attract :: "source \<Rightarrow> agent \<Rightarrow> vector" where
  "attract attractor a =
     (let force = VectorSub (location attractor) (location a);
          distance = mag force;
          distance = constrain distance (width a * height a / 8)
                       (width attractor * height attractor);
          force = normalize_v force;
          strength = (G attractor * mass attractor * mass a) / (distance * distance)
      in mult_v force strength)"

definition isInside :: "source \<Rightarrow> agent \<Rightarrow> bool" where
  "isInside container a =
     (vec_x (location a) + width a / 2 > vec_x (location container) - width container / 2 \<and>
      vec_x (location a) - width a / 2 < vec_x (location container) + width container / 2 \<and>
      vec_y (location a) + height a / 2 > vec_y (location container) - height container / 2 \<and>
      vec_y (location a) - height a / 2 < vec_y (location container) + height container / 2)"

section \<open>Flocking\<close>

text \<open>
  \<^verbatim>\<open>separate\<close>, \<^verbatim>\<open>align\<close> and \<^verbatim>\<open>cohesion\<close> return one of the agent's own Vector
  objects: the sum buffer they worked in, or \<^verbatim>\<open>zeroForceVector\<close>.  \<^verbatim>\<open>flock\<close> then
  scales the returned object in place.  A \<open>buffer\<close> names which object was returned.
\<close>

datatype buffer =
  SeparateSumForceVector | AlignSumForceVector | CohesionSumForceVector | ZeroForceVector

fun readBuffer :: "buffer \<Rightarrow> agent \<Rightarrow> vector" where
  "readBuffer SeparateSumForceVector a = separateSumForceVector a"
| "readBuffer AlignSumForceVector a = alignSumForceVector a"
| "readBuffer CohesionSumForceVector a = cohesionSumForceVector a"
| "readBuffer ZeroForceVector a = zeroForceVector a"

fun writeBuffer :: "buffer \<Rightarrow> vector \<Rightarrow> agent \<Rightarrow> agent" where
  "writeBuffer SeparateSumForceVector v a = a\<lparr>separateSumForceVector := v\<rparr>"
| "writeBuffer AlignSumForceVector v a = a\<lparr>alignSumForceVector := v\<rparr>"
| "writeBuffer CohesionSumForceVector v a = a\<lparr>cohesionSumForceVector := v\<rparr>"
| "writeBuffer ZeroForceVector v a = a\<lparr>zeroForceVector := v\<rparr>"

text \<open>The value of the vector a flocking behaviour returned.\<close>

definition returned :: "buffer \<times> agent \<Rightarrow> vector" where
  "returned r = readBuffer (fst r) (snd r)"

text \<open>The loops run over the elements in order; \<open>count\<close> is the loop's counter.\<close>

fun separateLoop :: "element list \<Rightarrow> agent \<times> nat \<Rightarrow> agent \<times> nat" where
  "separateLoop [] (a, count) = (a, count)"
| "separateLoop (element # rest) (a, count) =
     (if className a = className element \<and> id a \<noteq> id element then
        (let d = distance (location a) (location element) in
         if d > 0 \<and> d < desiredSeparation a then
           (let diff = VectorSub (location a) (location element);
                diff = normalize_v diff;
                diff = div_v diff d
            in separateLoop rest
                 (a\<lparr>separateSumForceVector := add_v (separateSumForceVector a) diff\<rparr>,
                  count + 1))
         else separateLoop rest (a, count))
      else separateLoop rest (a, count))"

definition separate :: "element list \<Rightarrow> agent \<Rightarrow> buffer \<times> agent" where
  "separate els a =
     (let a1 = a\<lparr>separateSumForceVector := Vector 0 (vec_y (separateSumForceVector a))\<rparr>;
          a2 = a1\<lparr>separateSumForceVector := Vector (vec_x (separateSumForceVector a1)) 0\<rparr>;
          (a3, count) = separateLoop els (a2, 0)
      in if count > 0 then
           (let a4 = a3\<lparr>separateSumForceVector := div_v (separateSumForceVector a3) (real count)\<rparr>;
                a5 = a4\<lparr>separateSumForceVector := normalize_v (separateSumForceVector a4)\<rparr>;
                a6 = a5\<lparr>separateSumForceVector := mult_v (separateSumForceVector a5) (maxSpeed a5)\<rparr>;
                a7 = a6\<lparr>separateSumForceVector := sub_v (separateSumForceVector a6) (velocity a6)\<rparr>;
                a8 = a7\<lparr>separateSumForceVector :=
                          limit (separateSumForceVector a7) (maxSteeringForce a7)\<rparr>
            in (SeparateSumForceVector, a8))
         else (ZeroForceVector, a3))"

fun alignLoop :: "element list \<Rightarrow> agent \<times> nat \<Rightarrow> agent \<times> nat" where
  "alignLoop [] (a, count) = (a, count)"
| "alignLoop (element # rest) (a, count) =
     (let neighbordist = width a * 2;
          d = distance (location a) (location element) in
      if d > 0 \<and> d < neighbordist then
        (if className a = className element \<and> id a \<noteq> id element then
           alignLoop rest
             (a\<lparr>alignSumForceVector := add_v (alignSumForceVector a) (velocity element)\<rparr>,
              count + 1)
         else alignLoop rest (a, count))
      else alignLoop rest (a, count))"

definition align :: "element list \<Rightarrow> agent \<Rightarrow> buffer \<times> agent" where
  "align els a =
     (let a1 = a\<lparr>alignSumForceVector := Vector 0 (vec_y (alignSumForceVector a))\<rparr>;
          a2 = a1\<lparr>alignSumForceVector := Vector (vec_x (alignSumForceVector a1)) 0\<rparr>;
          (a3, count) = alignLoop els (a2, 0)
      in if count > 0 then
           (let a4 = a3\<lparr>alignSumForceVector := div_v (alignSumForceVector a3) (real count)\<rparr>;
                a5 = a4\<lparr>alignSumForceVector := normalize_v (alignSumForceVector a4)\<rparr>;
                a6 = a5\<lparr>alignSumForceVector := mult_v (alignSumForceVector a5) (maxSpeed a5)\<rparr>;
                a7 = a6\<lparr>alignSumForceVector := sub_v (alignSumForceVector a6) (velocity a6)\<rparr>;
                a8 = a7\<lparr>alignSumForceVector :=
                          limit (alignSumForceVector a7) (maxSteeringForce a7)\<rparr>
            in (AlignSumForceVector, a8))
         else (ZeroForceVector, a3))"

fun cohesionLoop :: "element list \<Rightarrow> agent \<times> nat \<Rightarrow> agent \<times> nat" where
  "cohesionLoop [] (a, count) = (a, count)"
| "cohesionLoop (element # rest) (a, count) =
     (let neighbordist = 10;
          d = distance (location a) (location element) in
      if d > 0 \<and> d < neighbordist then
        (if className a = className element \<and> id a \<noteq> id element then
           cohesionLoop rest
             (a\<lparr>cohesionSumForceVector := add_v (cohesionSumForceVector a) (location element)\<rparr>,
              count + 1)
         else cohesionLoop rest (a, count))
      else cohesionLoop rest (a, count))"

text \<open>
  The first two statements of \<^verbatim>\<open>cohesion\<close> both assign the y component of the
  buffer (\<^verbatim>\<open>this.cohesionSumForceVector.y = 0\<close>, twice); the x component is not
  assigned.
\<close>

definition cohesion :: "element list \<Rightarrow> agent \<Rightarrow> buffer \<times> agent" where
  "cohesion els a =
     (let a1 = a\<lparr>cohesionSumForceVector := Vector (vec_x (cohesionSumForceVector a)) 0\<rparr>;
          a2 = a1\<lparr>cohesionSumForceVector := Vector (vec_x (cohesionSumForceVector a1)) 0\<rparr>;
          (a3, count) = cohesionLoop els (a2, 0)
      in if count > 0 then
           (let a4 = a3\<lparr>cohesionSumForceVector := div_v (cohesionSumForceVector a3) (real count)\<rparr>;
                a5 = a4\<lparr>cohesionSumForceVector := sub_v (cohesionSumForceVector a4) (location a4)\<rparr>;
                a6 = a5\<lparr>cohesionSumForceVector := normalize_v (cohesionSumForceVector a5)\<rparr>;
                a7 = a6\<lparr>cohesionSumForceVector := mult_v (cohesionSumForceVector a6) (maxSpeed a6)\<rparr>;
                a8 = a7\<lparr>cohesionSumForceVector := sub_v (cohesionSumForceVector a7) (velocity a7)\<rparr>;
                a9 = a8\<lparr>cohesionSumForceVector :=
                          limit (cohesionSumForceVector a8) (maxSteeringForce a8)\<rparr>
            in (CohesionSumForceVector, a9))
         else (ZeroForceVector, a3))"

text \<open>
  \<^verbatim>\<open>this.applyForce(this.separate(elements).mult(this.separateStrength))\<close>: the
  returned object is scaled in place, then applied.
\<close>

definition applyScaled :: "real \<Rightarrow> buffer \<times> agent \<Rightarrow> agent" where
  "applyScaled strength r =
     (let b = fst r; a = snd r;
          a1 = writeBuffer b (mult_v (readBuffer b a) strength) a
      in applyForce (readBuffer b a1) a1)"

definition flock :: "element list \<Rightarrow> agent \<Rightarrow> agent" where
  "flock els a =
     (let a1 = applyScaled (separateStrength a) (separate els a);
          a2 = applyScaled (alignStrength a1) (align els a1)
      in applyScaled (cohesionStrength a2) (cohesion els a2))"

section \<open>Boundaries and camera\<close>

text \<open>
  \<^verbatim>\<open>checkAvoidEdges\<close> has one local variable \<^verbatim>\<open>maxSpeed\<close>, declared without a
  value (\<open>None\<close>) and shared by the x part and the y part.  \<^verbatim>\<open>if (maxSpeed)\<close> holds
  when it has a value that is not zero.
\<close>

definition avoidForceX :: "real \<Rightarrow> agent \<Rightarrow> agent" where
  "avoidForceX maxSpeed' a =
     (let desiredVelocity = Vector maxSpeed' (vec_y (velocity a));
          desiredVelocity = sub_v desiredVelocity (velocity a);
          desiredVelocity = limit desiredVelocity (maxSteeringForce a)
      in applyForce desiredVelocity a)"

definition avoidForceY :: "real \<Rightarrow> agent \<Rightarrow> agent" where
  "avoidForceY maxSpeed' a =
     (let desiredVelocity = Vector (vec_x (velocity a)) maxSpeed';
          desiredVelocity = sub_v desiredVelocity (velocity a);
          desiredVelocity = limit desiredVelocity (maxSteeringForce a)
      in applyForce desiredVelocity a)"

definition checkAvoidEdges :: "world \<Rightarrow> agent \<Rightarrow> agent" where
  "checkAvoidEdges w a =
     (let maxSpeed0 = None;
          maxSpeed1 =
            (if vec_x (location a) < avoidEdgesStrength a then Some (maxSpeed a)
             else if vec_x (location a) > worldWidth w - avoidEdgesStrength a
               then Some (- maxSpeed a)
             else maxSpeed0);
          a1 = (case maxSpeed1 of
                  None \<Rightarrow> a
                | Some m \<Rightarrow> if m \<noteq> 0 then avoidForceX m a else a);
          maxSpeed2 =
            (if vec_y (location a1) < avoidEdgesStrength a1 then Some (maxSpeed a1)
             else if vec_y (location a1) > worldHeight w - avoidEdgesStrength a1
               then Some (- maxSpeed a1)
             else maxSpeed1)
      in case maxSpeed2 of
           None \<Rightarrow> a1
         | Some m \<Rightarrow> if m \<noteq> 0 then avoidForceY m a1 else a1)"

text \<open>
  \<^verbatim>\<open>checkWorldEdges(world)\<close> returns whether a boundary was crossed; it changes the
  agent and, when the agent controls the camera, the world's location.  \<open>x\<close> and \<open>y\<close>
  are the coordinates read at the start.
\<close>

definition recordCameraX :: "real \<Rightarrow> agent \<Rightarrow> agent" where
  "recordCameraX x0 a =
     (if controlCamera a
      then a\<lparr>cameraDiffVector := Vector (x0 - vec_x (location a)) 0\<rparr>
      else a)"

definition recordCameraY :: "real \<Rightarrow> agent \<Rightarrow> agent" where
  "recordCameraY y0 a =
     (if controlCamera a
      then a\<lparr>cameraDiffVector := Vector 0 (y0 - vec_y (location a))\<rparr>
      else a)"

definition setLocationX :: "real \<Rightarrow> agent \<Rightarrow> agent" where
  "setLocationX v a = writeLocation (Vector v (vec_y (location a))) a"

definition setLocationY :: "real \<Rightarrow> agent \<Rightarrow> agent" where
  "setLocationY v a = writeLocation (Vector (vec_x (location a)) v) a"

definition bounceX :: "agent \<Rightarrow> agent" where
  "bounceX a =
     a\<lparr>velocity := Vector (vec_x (velocity a) * (-1 * bounciness a)) (vec_y (velocity a))\<rparr>"

definition bounceY :: "agent \<Rightarrow> agent" where
  "bounceY a =
     a\<lparr>velocity := Vector (vec_x (velocity a)) (vec_y (velocity a) * (-1 * bounciness a))\<rparr>"

definition checkWorldEdgesX :: "world \<Rightarrow> real \<Rightarrow> agent \<times> bool \<Rightarrow> agent \<times> bool" where
  "checkWorldEdgesX w x0 s =
     (let a = fst s; check = snd s in
      if wrapEdges a then
        (if vec_x (location a) > worldWidth w
         then (recordCameraX x0 (setLocationX 0 a), True)
         else if vec_x (location a) < 0
         then (recordCameraX x0 (setLocationX (worldWidth w) a), True)
         else (a, check))
      else
        (if vec_x (location a) + width a / 2 > worldWidth w
         then (recordCameraX x0 (bounceX (setLocationX (worldWidth w - width a / 2) a)), True)
         else if vec_x (location a) < width a / 2
         then (recordCameraX x0 (bounceX (setLocationX (width a / 2) a)), True)
         else (a, check)))"

definition checkWorldEdgesY :: "world \<Rightarrow> real \<Rightarrow> agent \<times> bool \<Rightarrow> agent \<times> bool" where
  "checkWorldEdgesY w y0 s =
     (let a = fst s; check = snd s in
      if wrapEdges a then
        (if vec_y (location a) > worldHeight w
         then (recordCameraY y0 (setLocationY 0 a), True)
         else if vec_y (location a) < 0
         then (recordCameraY y0 (setLocationY (worldHeight w) a), True)
         else (a, check))
      else
        (if vec_y (location a) + height a / 2 > worldHeight w
         then (recordCameraY y0 (bounceY (setLocationY (worldHeight w - height a / 2) a)), True)
         else if vec_y (location a) < height a / 2
         then (recordCameraY y0 (bounceY (setLocationY (height a / 2) a)), True)
         else (a, check)))"

definition checkWorldEdges :: "agent \<times> world \<Rightarrow> bool \<times> agent \<times> world" where
  "checkWorldEdges s =
     (let a = fst s; w = snd s;
          x0 = vec_x (location a);
          y0 = vec_y (location a);
          s1 = checkWorldEdgesX w x0 (a, False);
          s2 = checkWorldEdgesY w y0 s1;
          a2 = fst s2; check = snd s2;
          w2 = (if check \<and> controlCamera a2
                then w\<lparr>worldLocation := add_v (worldLocation w) (cameraDiffVector a2)\<rparr>
                else w)
      in (check, a2, w2))"

definition checkCameraEdges :: "agent \<times> world \<Rightarrow> agent \<times> world" where
  "checkCameraEdges s =
     (let a = fst s; w = snd s;
          a1 = a\<lparr>checkCameraEdgesVector := Vector (vec_x (velocity a)) (vec_y (checkCameraEdgesVector a))\<rparr>;
          a2 = a1\<lparr>checkCameraEdgesVector := Vector (vec_x (checkCameraEdgesVector a1)) (vec_y (velocity a1))\<rparr>;
          a3 = a2\<lparr>checkCameraEdgesVector := mult_v (checkCameraEdgesVector a2) (-1)\<rparr>
      in (a3, w\<lparr>worldLocation := add_v (worldLocation w) (checkCameraEdgesVector a3)\<rparr>))"

section \<open>The step\<close>

text \<open>
  \<^verbatim>\<open>step()\<close> is modelled section by section, in the order of the source.  Each section
  takes the agent and returns it updated.  The loops over the registries skip the
  entry that is the agent itself (same id).  Setting the CSS class of a liquid's DOM
  node is display only and is not modelled.
\<close>

fun stepLiquids :: "source list \<Rightarrow> agent \<Rightarrow> agent" where
  "stepLiquids [] a = a"
| "stepLiquids (liquid # rest) a =
     (if id a \<noteq> id liquid \<and> isInside liquid a
      then stepLiquids rest (applyForce (drag liquid a) a)
      else stepLiquids rest a)"

text \<open>The repeller loop and the attractor loop have the same body.\<close>

fun stepAttractors :: "source list \<Rightarrow> agent \<Rightarrow> agent" where
  "stepAttractors [] a = a"
| "stepAttractors (attractor # rest) a =
     (if id a \<noteq> id attractor
      then stepAttractors rest (applyForce (attract attractor a) a)
      else stepAttractors rest a)"

text \<open>
  One turn of the sensor loop, for the sensor at index \<open>i\<close> (always below the length
  of the list): the sensor is placed relative to the agent and, if activated, its
  force is applied and the flag \<open>sensorActivated\<close> is set.
\<close>

definition stepSensor :: "env \<Rightarrow> nat \<Rightarrow> agent \<times> bool \<Rightarrow> agent \<times> bool" where
  "stepSensor e i s =
     (let a = fst s; sensorActivated = snd s;
          sensor = sensors a ! i;
          r = sensorOffsetDistance sensor;
          theta = degreesToRadians (angle a + sensorOffsetAngle sensor);
          x = r * cos theta;
          y = r * sin theta;
          sensor1 = sensor\<lparr>sensorLocation :=
                      add_v (Vector (vec_x (location a)) (vec_y (location a))) (Vector x y)\<rparr>;
          a1 = a\<lparr>sensors := (sensors a)[i := sensor1]\<rparr>
      in if activated sensor1
         then (applyForce (getActivationForce e sensor1 a1) a1, True)
         else (a1, sensorActivated))"

definition stepSensors :: "env \<Rightarrow> agent \<Rightarrow> agent \<times> bool" where
  "stepSensors e a = fold (stepSensor e) [0..<length (sensors a)] (a, False)"

definition stepMotor :: "bool \<Rightarrow> agent \<Rightarrow> agent" where
  "stepMotor sensorActivated a =
     (if \<not> sensorActivated \<and> motorSpeed a \<noteq> 0 then
        (let dir = clone (velocity a);
             dir = normalize_v dir;
             dir = (if mag (velocity a) > motorSpeed a
                    then mult_v dir (- motorSpeed a)
                    else mult_v dir (motorSpeed a))
         in applyForce dir a)
      else a)"

definition stepFriction :: "world \<Rightarrow> agent \<Rightarrow> agent" where
  "stepFriction w a =
     (case worldC w of
        None \<Rightarrow> a
      | Some wc \<Rightarrow>
          if wc \<noteq> 0 then
            (let friction = clone (velocity a);
                 friction = mult_v friction (-1);
                 friction = normalize_v friction;
                 friction = mult_v friction wc
             in applyForce friction a)
          else a)"

definition stepFollowMouse :: "env \<Rightarrow> world \<Rightarrow> agent \<Rightarrow> agent" where
  "stepFollowMouse e w a =
     (if followMouse a
      then applyForce (seek w (Vector (vec_x (mouseLoc e)) (vec_y (mouseLoc e))) a) a
      else a)"

definition stepSeekTarget :: "world \<Rightarrow> agent \<Rightarrow> agent" where
  "stepSeekTarget w a =
     (case seekTarget a of
        None \<Rightarrow> a
      | Some target \<Rightarrow> applyForce (seek w (location target) a) a)"

text \<open>
  \<^verbatim>\<open>Math.floor(this.location.x/res)\<close> as an index into the field.  With a resolution
  of zero the quotient is an infinity or NaN in JavaScript, which is no index of the
  mapping: the lookup gives \<^verbatim>\<open>undefined\<close>.
\<close>

definition fieldColumn :: "flow_field \<Rightarrow> real \<Rightarrow> (int \<Rightarrow> vector option) option" where
  "fieldColumn ff x0 =
     (if resolution ff = 0 then None else field ff \<lfloor>x0 / resolution ff\<rfloor>)"

definition stepFlowField :: "agent \<Rightarrow> agent" where
  "stepFlowField a =
     (case flowField a of
        None \<Rightarrow> a
      | Some ff \<Rightarrow>
          (let res = resolution ff;
               row = \<lfloor>vec_y (location a) / res\<rfloor>
           in case fieldColumn ff (vec_x (location a)) of
                None \<Rightarrow> a
              | Some column \<Rightarrow>
                  (let a1 = (case column row of
                               Some loc \<Rightarrow>
                                 a\<lparr>followTargetVector := Vector (vec_x loc) (vec_y loc)\<rparr>
                             | None \<Rightarrow>
                                 a\<lparr>followTargetVector :=
                                     Vector (vec_x (location a)) (vec_y (location a))\<rparr>);
                       a2 = follow (followTargetVector a1) a1
                   in applyForce (followDesiredVelocity a2) a2)))"

definition applyForces :: "env \<Rightarrow> world \<Rightarrow> agent \<Rightarrow> agent" where
  "applyForces e w a =
     (let a1 = stepLiquids (liquids e) a;
          a2 = stepAttractors (repellers e) a1;
          a3 = stepAttractors (attractors e) a2;
          s4 = stepSensors e a3;
          a5 = stepMotor (snd s4) (fst s4);
          a6 = stepFriction w a5;
          a7 = applyForce (wind w) a6;
          a8 = applyForce (gravity w) a7;
          a9 = stepFollowMouse e w a8;
          a10 = stepSeekTarget w a9;
          a11 = stepFlowField a10;
          a12 = (if flocking a11 then flock (elements e) a11 else a11)
      in if avoidEdges a12 then checkAvoidEdges w a12 else a12)"

definition integrate :: "agent \<Rightarrow> agent" where
  "integrate a =
     (let a1 = a\<lparr>velocity := add_v (velocity a) (acceleration a)\<rparr>;
          a2 = (if maxSpeed a1 \<noteq> 0
                then a1\<lparr>velocity := limit (velocity a1) (maxSpeed a1)\<rparr> else a1);
          a3 = (if minSpeed a2 \<noteq> 0
                then a2\<lparr>velocity := limitLow (velocity a2) (minSpeed a2)\<rparr> else a2);
          a4 = writeLocation (add_v (location a3) (velocity a3)) a3
      in if pointToDirection a4 \<and> mag (velocity a4) > 0.1
         then a4\<lparr>angle := radiansToDegrees (atan2 (vec_y (velocity a4)) (vec_x (velocity a4)))\<rparr>
         else a4)"

text \<open>
  Parenting.  With an offset distance that is not zero the agent's location object
  receives the parent's coordinates and the offset.  With an offset distance of zero
  the agent's location becomes the parent's location object itself, and stays so.
\<close>

definition stepParent :: "agent \<Rightarrow> agent" where
  "stepParent a =
     (case parent a of
        None \<Rightarrow> a
      | Some p \<Rightarrow>
          if offsetDistance a \<noteq> 0 then
            (let r = offsetDistance a;
                 theta = degreesToRadians (angle p + offsetAngle a);
                 x = r * cos theta;
                 y = r * sin theta
             in writeLocation
                  (add_v (Vector (vec_x (location p)) (vec_y (location p))) (Vector x y)) a)
          else a\<lparr>location := location p, locationIsParents := True\<rparr>)"

definition runHook :: "(agent \<Rightarrow> agent) option \<Rightarrow> agent \<Rightarrow> agent" where
  "runHook h a = (case h of None \<Rightarrow> a | Some f \<Rightarrow> f a)"

definition step :: "callbacks \<Rightarrow> env \<Rightarrow> agent \<times> world \<Rightarrow> agent \<times> world" where
  "step cb e s =
     (let a0 = runHook (beforeStep cb) (fst s); w = snd s in
      if \<not> isStatic a0 \<and> \<not> isPressed a0 then
        (let a1 = integrate (applyForces e w a0);
             s2 = (if controlCamera a1 then checkCameraEdges (a1, w) else (a1, w));
             s3 = (if checkEdges (fst s2) \<or> wrapEdges (fst s2)
                   then snd (checkWorldEdges s2) else s2);
             a4 = stepParent (fst s3);
             a5 = runHook (afterStep cb) a4;
             a6 = a5\<lparr>acceleration := mult_v (acceleration a5) 0\<rparr>;
             a7 = (if lifespan a6 > 0 then a6\<lparr>lifespan := lifespan a6 - 1\<rparr> else a6)
         in (a7, snd s3))
      else (a0, w))"

section \<open>Accessors\<close>

text \<open>
  \<^verbatim>\<open>getLocation(type)\<close> and \<^verbatim>\<open>getVelocity(type)\<close> return a new Vector, a number,
  or nothing (\<^verbatim>\<open>undefined\<close>, when the argument is a string other than 'x' and 'y').
  The argument is absent (\<open>None\<close>) or a string; the empty string is falsy as well.
\<close>

datatype getter_result = RVector vector | RNumber real | RUndefined

definition falsy_type :: "string option \<Rightarrow> bool" where
  "falsy_type t = (case t of None \<Rightarrow> True | Some s \<Rightarrow> s = [])"

definition getLocation :: "string option \<Rightarrow> agent \<Rightarrow> getter_result" where
  "getLocation t a =
     (if falsy_type t then RVector (Vector (vec_x (location a)) (vec_y (location a)))
      else if t = Some ''x'' then RNumber (vec_x (location a))
      else if t = Some ''y'' then RNumber (vec_y (location a))
      else RUndefined)"

definition getVelocity :: "string option \<Rightarrow> agent \<Rightarrow> getter_result" where
  "getVelocity t a =
     (if falsy_type t then RVector (Vector (vec_x (location a)) (vec_y (location a)))
      else if t = Some ''x'' then RNumber (vec_x (velocity a))
      else if t = Some ''y'' then RNumber (vec_y (velocity a))
      else RUndefined)"

section \<open>applyForce on Vector objects\<close>







section \<open>The constructor\<close>














section \<open>The hooks of a constructed agent\<close>




section \<open>Example data\<close>

text \<open>A world of 800 by 600, an empty frame and an agent with the default options.\<close>

definition exampleWorld :: world where
  "exampleWorld =
     \<lparr>worldWidth = 800, worldHeight = 600, gravity = Vector 0 0, wind = Vector 0 0,
      worldC = None, worldLocation = Vector 0 0\<rparr>"

definition exampleEnv :: env where
  "exampleEnv =
     \<lparr>liquids = [], repellers = [], attractors = [], elements = [],
      mouseLoc = Vector 0 0, getActivationForce = (\<lambda>sn a. Vector 0 0)\<rparr>"

definition exampleAgent :: agent where
  "exampleAgent =
     \<lparr>id = 1, className = ''agent'', location = Vector 0 0, velocity = Vector 0 0,
      width = 10, height = 10, angle = 0, mass = 1,
      acceleration = Vector 0 0, maxSpeed = 10, minSpeed = 0, motorSpeed = 0,
      lifespan = -1, offsetDistance = 30, offsetAngle = 0, pointToDirection = True,
      followMouse = False, seekTarget = None, isStatic = False, isPressed = False,
      checkEdges = True, wrapEdges = False, avoidEdges = False, avoidEdgesStrength = 200,
      bounciness = 0.75, maxSteeringForce = 100, flocking = False, desiredSeparation = 20,
      separateStrength = 0.3, alignStrength = 0.2, cohesionStrength = 0.1,
      flowField = None, controlCamera = False, parent = None, sensors = [],
      applyForceVector = Vector 0 0, followTargetVector = Vector 0 0,
      followDesiredVelocity = Vector 0 0, separateSumForceVector = Vector 0 0,
      alignSumForceVector = Vector 0 0, cohesionSumForceVector = Vector 0 0,
      zeroForceVector = Vector 0 0, cameraDiffVector = Vector 0 0,
      checkCameraEdgesVector = Vector 0 0, locationIsParents = False\<rparr>"

definition frozenAgent :: agent where
  "frozenAgent = exampleAgent\<lparr>isStatic := True\<rparr>"

definition pressedAgent :: agent where
  "pressedAgent = exampleAgent\<lparr>isPressed := True\<rparr>"

definition exampleHooks :: callbacks where
  "exampleHooks =
     \<lparr>beforeStep = Some (\<lambda>a. a\<lparr>angle := 90\<rparr>),
      afterStep = Some (\<lambda>a. a\<lparr>angle := 180\<rparr>)\<rparr>"

definition noHooks :: callbacks where
  "noHooks = \<lparr>beforeStep = None, afterStep = None\<rparr>"

text \<open>
  An agent 10 from the left edge of the example world and 300 from its top, with an
  avoidance margin of 50: near one horizontal boundary, far from both vertical ones.
\<close>

definition edgeAgent :: agent where
  "edgeAgent =
     exampleAgent\<lparr>location := Vector 10 300, avoidEdges := True, avoidEdgesStrength := 50\<rparr>"

text \<open>A neighbour of the example agent: same class, another id, at distance 5.\<close>

definition neighbour :: element where
  "neighbour =
     \<lparr>id = 2, className = ''agent'', location = Vector 0 5, velocity = Vector 0 0,
      width = 10, height = 10, angle = 0, mass = 1\<rparr>"

text \<open>The agent of the bounce scenario and the two bodies of the attraction scenario.\<close>

definition bounceAgent :: agent where
  "bounceAgent = exampleAgent\<lparr>location := Vector 0 50, width := 20, velocity := Vector (-5) 0\<rparr>"

definition exampleAttractor :: source where
  "exampleAttractor =
     \<lparr>id = 7, className = ''attractor'', location = Vector 20 0, velocity = Vector 0 0,
      width = 10, height = 10, angle = 0, mass = 100, c = 0, G = 1\<rparr>"

text \<open>A flow field of resolution 10 with no column at all, and an agent that has it.\<close>

definition emptyField :: flow_field where
  "emptyField = \<lparr>resolution = 10, field = (\<lambda>col. None)\<rparr>"

definition fieldAgent :: agent where
  "fieldAgent = exampleAgent\<lparr>location := Vector 25 35, flowField := Some emptyField\<rparr>"













section \<open>Facts about vectors\<close>

lemma mag_x_axis: "mag (Vector a 0) = \<bar>a\<bar>"
  by (simp add: mag_def)

lemma mag_y_axis: "mag (Vector 0 b) = \<bar>b\<bar>"
  by (simp add: mag_def)

lemma sqrt_of_square: "0 \<le> r \<Longrightarrow> s = r * r \<Longrightarrow> sqrt s = r"
  by (simp add: real_sqrt_mult)

lemma mag_12_5: "mag (Vector 12 5) = 13"
  unfolding mag_def by (rule sqrt_of_square) simp_all

lemma mag_120_50_over_13: "mag (Vector (120 / 13) (50 / 13)) = 10"
  unfolding mag_def by (rule sqrt_of_square) simp_all

lemma mag_mult_v: "mag (mult_v v k) = \<bar>k\<bar> * mag v"
proof -
  have "vec_x v * k * (vec_x v * k) + vec_y v * k * (vec_y v * k)
        = (k * k) * (vec_x v * vec_x v + vec_y v * vec_y v)"
    by (simp add: algebra_simps)
  then show ?thesis
    by (simp add: mag_def mult_v_def real_sqrt_mult)
qed

lemma div_v_as_mult: "div_v v n = mult_v v (1 / n)"
  by (simp add: div_v_def mult_v_def)

lemma mult_v_twice: "mult_v (mult_v v j) k = mult_v v (j * k)"
  by (simp add: mult_v_def)

lemma normalize_zero: "normalize_v (Vector 0 0) = Vector 0 0"
  by (simp add: normalize_v_def mag_def)

section \<open>Reading the velocity\<close>

lemma getVelocity_x: "getVelocity (Some ''x'') a = RNumber (vec_x (velocity a))"
  by (simp add: getVelocity_def falsy_type_def)

lemma getVelocity_y: "getVelocity (Some ''y'') a = RNumber (vec_y (velocity a))"
  by (simp add: getVelocity_def falsy_type_def)

lemma getLocation_copy: "getLocation None a = RVector (location a)"
  by (simp add: getLocation_def falsy_type_def)

text \<open>
  Claim C1: \<^verbatim>\<open>getVelocity()\<close> without an axis returns a new Vector with the components
  of the agent's velocity, and \<^verbatim>\<open>getVelocity('x')\<close>, \<^verbatim>\<open>getVelocity('y')\<close> return the
  components of the velocity.  The two calls with an axis do (lemmas \<open>getVelocity_x\<close>
  and \<open>getVelocity_y\<close>).  The call without an axis builds its Vector from
  \<^verbatim>\<open>this.location\<close>: for an agent at (1, 2) moving with velocity (3, 4) it returns
  (1, 2), which is not the velocity.
\<close>

theorem getVelocity_no_axis_copies_location:
  "getVelocity None (exampleAgent\<lparr>location := Vector 1 2, velocity := Vector 3 4\<rparr>)
     = RVector (Vector 1 2) \<and>
   velocity (exampleAgent\<lparr>location := Vector 1 2, velocity := Vector 3 4\<rparr>) = Vector 3 4"
  by (simp add: getVelocity_def falsy_type_def exampleAgent_def)

section \<open>The frozen agent\<close>

lemma step_frozen:
  "isStatic (runHook (beforeStep cb) a) \<or> isPressed (runHook (beforeStep cb) a) \<Longrightarrow>
   step cb e (a, w) = (runHook (beforeStep cb) a, w)"
  by (auto simp add: step_def Let_def)

lemma step_static_no_hooks: "isStatic a \<Longrightarrow> step noHooks e (a, w) = (a, w)"
  by (simp add: step_def noHooks_def runHook_def)

text \<open>
  Claim C2, as stated: a single \<^verbatim>\<open>step()\<close> of a frozen agent that has both hooks
  invokes both of them.  In the source the call of \<^verbatim>\<open>afterStep\<close> stands inside the
  branch guarded by \<^verbatim>\<open>!this.isStatic && !this.isPressed\<close>, which a frozen agent
  skips.  Here \<^verbatim>\<open>beforeStep\<close> sets the angle to 90 and \<^verbatim>\<open>afterStep\<close> would set it
  to 180; after the step of the static agent the angle is 90, not 180, and nothing
  else has changed.
\<close>

theorem step_frozen_skips_afterStep:
  "step exampleHooks exampleEnv (frozenAgent, exampleWorld)
     = (frozenAgent\<lparr>angle := 90\<rparr>, exampleWorld) \<and>
   angle (fst (step exampleHooks exampleEnv (frozenAgent, exampleWorld))) \<noteq> 180"
  by (simp add: step_def Let_def runHook_def exampleHooks_def frozenAgent_def exampleAgent_def)

text \<open>
  Claim C2, amended: a single \<^verbatim>\<open>step()\<close> of an agent that has both hooks and is
  frozen when the guard is tested, that is after \<^verbatim>\<open>beforeStep\<close> has run, invokes
  \<^verbatim>\<open>beforeStep\<close> only.  The step returns the agent as \<^verbatim>\<open>beforeStep\<close> left it and the
  world as it was, whatever \<^verbatim>\<open>afterStep\<close> is: physics and \<^verbatim>\<open>afterStep\<close> are both
  skipped.
\<close>

theorem step_frozen_runs_beforeStep_only:
  assumes "isStatic (b a) \<or> isPressed (b a)"
  shows "step \<lparr>beforeStep = Some b, afterStep = Some f\<rparr> e (a, w) = (b a, w)"
  using assms by (auto simp add: step_def Let_def runHook_def)

theorem step_frozen_runs_beforeStep_only_witness:
  "isPressed (pressedAgent\<lparr>angle := 90\<rparr>) \<and>
   step exampleHooks exampleEnv (pressedAgent, exampleWorld)
     = (pressedAgent\<lparr>angle := 90\<rparr>, exampleWorld)"
  using step_frozen_runs_beforeStep_only
          [of "\<lambda>a. a\<lparr>angle := 90\<rparr>" pressedAgent "\<lambda>a. a\<lparr>angle := 180\<rparr>"
              exampleEnv exampleWorld]
  by (simp add: exampleHooks_def pressedAgent_def)

text \<open>
  Claim C6: for an agent with \<open>isStatic\<close> set and no hooks, any number of calls of
  \<^verbatim>\<open>step()\<close> leaves location, velocity and acceleration unchanged.  The calls are
  a list of frames, each with its own registries; the whole state, agent and world,
  stays as it was.
\<close>

theorem step_static_any_number_of_times:
  assumes "isStatic a"
  shows "fold (step noHooks) frames (a, w) = (a, w) \<and>
         location (fst (fold (step noHooks) frames (a, w))) = location a \<and>
         velocity (fst (fold (step noHooks) frames (a, w))) = velocity a \<and>
         acceleration (fst (fold (step noHooks) frames (a, w))) = acceleration a"
proof -
  have "fold (step noHooks) frames (a, w) = (a, w)"
    using assms by (induction frames) (simp_all add: step_static_no_hooks)
  then show ?thesis by simp
qed

theorem step_static_any_number_of_times_witness:
  "isStatic frozenAgent \<and>
   fold (step noHooks) [exampleEnv, exampleEnv, exampleEnv] (frozenAgent, exampleWorld)
     = (frozenAgent, exampleWorld)"
  using step_static_any_number_of_times
          [of frozenAgent "[exampleEnv, exampleEnv, exampleEnv]" exampleWorld]
  by (simp add: frozenAgent_def)

section \<open>Edge avoidance\<close>

lemma checkAvoidEdges_near_left_only:
  assumes "vec_x (location a) < avoidEdgesStrength a"
    and "avoidEdgesStrength a \<le> vec_y (location a)"
    and "vec_y (location a) \<le> worldHeight w - avoidEdgesStrength a"
    and "maxSpeed a \<noteq> 0"
  shows "checkAvoidEdges w a = avoidForceY (maxSpeed a) (avoidForceX (maxSpeed a) a)"
  using assms
  by (simp add: checkAvoidEdges_def Let_def avoidForceX_def applyForce_def)

text \<open>
  Claim C3: near a horizontal boundary and far from both vertical ones,
  \<^verbatim>\<open>checkAvoidEdges\<close> accumulates the x-axis force only.  In the source the variable
  \<^verbatim>\<open>maxSpeed\<close> keeps the value the x part gave it, so the test of the y part
  succeeds as well and a second force is applied (lemma
  \<open>checkAvoidEdges_near_left_only\<close>).  For the agent at (10, 300) in the world of
  800 by 600, with a margin of 50, mass 1 and maximum speed 10, the acceleration
  becomes (10, 10); the x-axis force alone gives (10, 0).
\<close>

theorem checkAvoidEdges_applies_y_force_too:
  "acceleration (checkAvoidEdges exampleWorld edgeAgent) = Vector 10 10 \<and>
   acceleration (avoidForceX 10 edgeAgent) = Vector 10 0"
  by (simp add: Let_def checkAvoidEdges_def avoidForceX_def avoidForceY_def applyForce_def
      limit_def sub_v_def add_v_def div_v_def mag_x_axis mag_y_axis
      edgeAgent_def exampleAgent_def exampleWorld_def)

section \<open>The sum buffers\<close>

lemma separate_resets_buffer:
  "separate els (a\<lparr>separateSumForceVector := v\<rparr>) = separate els a"
  by (simp add: separate_def)

lemma align_resets_buffer:
  "align els (a\<lparr>alignSumForceVector := v\<rparr>) = align els a"
  by (simp add: align_def)

lemma cohesion_keeps_x:
  "cohesion els (a\<lparr>cohesionSumForceVector := Vector x0 y0\<rparr>)
     = cohesion els (a\<lparr>cohesionSumForceVector := Vector x0 0\<rparr>)"
  by (simp add: cohesion_def)

text \<open>
  Claim C4: the vector returned by \<^verbatim>\<open>cohesion\<close> (and by \<^verbatim>\<open>separate\<close> and \<^verbatim>\<open>align\<close>)
  is the same for any two previous values of the agent's sum buffer.  \<^verbatim>\<open>separate\<close>
  and \<^verbatim>\<open>align\<close> set both components of their buffer to zero first (lemmas
  \<open>separate_resets_buffer\<close> and \<open>align_resets_buffer\<close>).  \<^verbatim>\<open>cohesion\<close> assigns the
  y component twice and the x component never: with one neighbour at (0, 5), the
  example agent gets (120/13, 50/13) when the buffer held (12, 7) before, and (0, 10)
  when it held (0, 7).
\<close>

theorem cohesion_result_depends_on_buffer:
  "returned (cohesion [neighbour] (exampleAgent\<lparr>cohesionSumForceVector := Vector 12 7\<rparr>))
     = Vector (120 / 13) (50 / 13) \<and>
   returned (cohesion [neighbour] (exampleAgent\<lparr>cohesionSumForceVector := Vector 0 7\<rparr>))
     = Vector 0 10"
  by (simp add: Let_def returned_def cohesion_def distance_def sub_v_def add_v_def div_v_def
      mult_v_def normalize_v_def limit_def mag_y_axis mag_12_5 mag_120_50_over_13
      exampleAgent_def neighbour_def)

section \<open>World edges\<close>

lemma writeLocation_fields:
  "location (writeLocation v a) = v"
  "velocity (writeLocation v a) = velocity a"
  "width (writeLocation v a) = width a"
  "height (writeLocation v a) = height a"
  "bounciness (writeLocation v a) = bounciness a"
  "wrapEdges (writeLocation v a) = wrapEdges a"
  "controlCamera (writeLocation v a) = controlCamera a"
  by (simp_all add: writeLocation_def split: option.splits)

text \<open>
  Claim C7: an agent at (0, 50) of width 20 and bounciness 0.75, with \<open>wrapEdges\<close>
  off and \<open>velocity.x = -5\<close>: \<^verbatim>\<open>checkWorldEdges\<close> sets \<open>location.x\<close> to 10 and
  \<open>velocity.x\<close> to 3.75 and reports that a boundary was crossed.  The world is any
  world in which the right edge is not crossed as well, that is one at least 10 wide;
  its height, the agent's height and \<open>velocity.y\<close> are arbitrary.
\<close>

theorem checkWorldEdges_bounce_scenario:
  assumes "location a = Vector 0 50" and "width a = 20" and "bounciness a = 0.75"
    and "\<not> wrapEdges a" and "vec_x (velocity a) = -5" and "10 \<le> worldWidth w"
  shows "fst (checkWorldEdges (a, w)) \<and>
         vec_x (location (fst (snd (checkWorldEdges (a, w))))) = 10 \<and>
         vec_x (velocity (fst (snd (checkWorldEdges (a, w))))) = 3.75"
  using assms
  by (simp add: Let_def checkWorldEdges_def checkWorldEdgesX_def checkWorldEdgesY_def
      recordCameraX_def recordCameraY_def setLocationX_def setLocationY_def
      bounceX_def bounceY_def writeLocation_fields)

theorem checkWorldEdges_bounce_scenario_witness:
  "location bounceAgent = Vector 0 50 \<and> width bounceAgent = 20 \<and>
   bounciness bounceAgent = 0.75 \<and> \<not> wrapEdges bounceAgent \<and>
   vec_x (velocity bounceAgent) = -5 \<and> 10 \<le> worldWidth exampleWorld \<and>
   fst (checkWorldEdges (bounceAgent, exampleWorld)) \<and>
   vec_x (location (fst (snd (checkWorldEdges (bounceAgent, exampleWorld))))) = 10 \<and>
   vec_x (velocity (fst (snd (checkWorldEdges (bounceAgent, exampleWorld))))) = 3.75"
  using checkWorldEdges_bounce_scenario [of bounceAgent exampleWorld]
  by (simp add: bounceAgent_def exampleAgent_def exampleWorld_def)

section \<open>Attraction\<close>

text \<open>
  Claim C8: an attractor with G = 1 and mass 100, an agent of mass 1, both 10 by 10,
  their locations 20 apart.  The distance lies inside the clamp interval
  [12.5, 100], and \<^verbatim>\<open>attract\<close> returns a force of magnitude 0.25 that points from
  the agent to the attractor: it is the vector from the agent to the attractor,
  scaled by 1/80.
\<close>

theorem attract_scenario:
  assumes "G attractor = 1" and "mass attractor = 100" and "mass a = 1"
    and "width a = 10" and "height a = 10"
    and "width attractor = 10" and "height attractor = 10"
    and "distance (location attractor) (location a) = 20"
  shows "mag (attract attractor a) = 0.25 \<and>
         attract attractor a = mult_v (VectorSub (location attractor) (location a)) (1 / 80) \<and>
         constrain 20 (width a * height a / 8) (width attractor * height attractor) = 20"
proof -
  let ?d = "VectorSub (location attractor) (location a)"
  have m: "mag ?d = 20"
    using assms(8) by (simp add: distance_def VectorSub_def sub_v_def)
  have eq: "attract attractor a = mult_v ?d (1 / 80)"
    using assms(1-7) m
    by (simp add: attract_def Let_def constrain_def normalize_v_def div_v_as_mult mult_v_twice)
  have "mag (mult_v ?d (1 / 80)) = 0.25"
    by (simp add: mag_mult_v m)
  moreover have "constrain 20 (width a * height a / 8) (width attractor * height attractor) = 20"
    using assms(4-7) by (simp add: constrain_def)
  ultimately show ?thesis using eq by simp
qed

theorem attract_scenario_witness:
  "G exampleAttractor = 1 \<and> mass exampleAttractor = 100 \<and> mass exampleAgent = 1 \<and>
   width exampleAgent = 10 \<and> height exampleAgent = 10 \<and>
   width exampleAttractor = 10 \<and> height exampleAttractor = 10 \<and>
   distance (location exampleAttractor) (location exampleAgent) = 20 \<and>
   mag (attract exampleAttractor exampleAgent) = 0.25 \<and>
   attract exampleAttractor exampleAgent = Vector (1 / 4) 0"
  using attract_scenario [of exampleAttractor exampleAgent]
  by (simp add: exampleAttractor_def exampleAgent_def distance_def sub_v_def VectorSub_def
      mult_v_def mag_x_axis)

section \<open>The flow field\<close>

lemma stepFlowField_missing_row:
  assumes "flowField a = Some ff" and "resolution ff \<noteq> 0"
    and "field ff \<lfloor>vec_x (location a) / resolution ff\<rfloor> = Some column"
    and "column \<lfloor>vec_y (location a) / resolution ff\<rfloor> = None"
  shows "stepFlowField a =
         (let a1 = a\<lparr>followTargetVector := location a\<rparr>; a2 = follow (location a) a1
          in applyForce (followDesiredVelocity a2) a2)"
  using assms by (simp add: stepFlowField_def fieldColumn_def Let_def)

text \<open>
  Claim C10: in \<^verbatim>\<open>step()\<close> of an agent with a flow field, when the field has no
  entry at column \<open>floor(location.x / resolution)\<close>, the flow-field section applies no
  force: it leaves the agent, and so its acceleration, as it was.  (When only the row
  is missing, the agent follows its own location: lemma \<open>stepFlowField_missing_row\<close>.
  With a resolution of zero no column is found either.)
\<close>

theorem stepFlowField_missing_column:
  assumes "flowField a = Some ff"
    and "field ff \<lfloor>vec_x (location a) / resolution ff\<rfloor> = None"
  shows "stepFlowField a = a \<and> acceleration (stepFlowField a) = acceleration a"
  using assms by (simp add: stepFlowField_def fieldColumn_def Let_def)

theorem stepFlowField_missing_column_witness:
  "flowField fieldAgent = Some emptyField \<and>
   field emptyField \<lfloor>vec_x (location fieldAgent) / resolution emptyField\<rfloor> = None \<and>
   stepFlowField fieldAgent = fieldAgent"
  using stepFlowField_missing_column [of fieldAgent emptyField]
  by (simp add: fieldAgent_def emptyField_def)

section \<open>The frame of applyForce\<close>






section \<open>Parenting\<close>

text \<open>
  Once parenting with an offset distance of zero has made the agent's location the
  parent's location object, a later write to the agent's location shows in the
  parent's location as well.
\<close>

lemma stepParent_shares_location:
  assumes "parent a = Some p" and "offsetDistance a = 0"
  shows "locationIsParents (stepParent a) \<and>
         location (stepParent a) = location p \<and>
         location (writeLocation v (stepParent a)) = v \<and>
         parent (writeLocation v (stepParent a)) = Some (p\<lparr>location := v\<rparr>)"
  using assms by (simp add: stepParent_def writeLocation_def)

section \<open>Construction\<close>











end
